theory Spec2Isabelle
  imports Main
begin

section \<open>The Go library functions that qdownload.go calls\<close>

text \<open>
  Go strings are byte sequences; they are modelled as \<open>string\<close> (a list of 8-bit
  characters). The 64-bit integers of the source (sizes, modification times, counters)
  are modelled as \<open>int\<close>; the only place where the 64-bit range is visible to the
  program is \<open>strconv.ParseInt\<close>, whose range check is written out below.
\<close>

subsection \<open>strings\<close>

text \<open>\<open>strings.Split(s, sep)\<close> for a one-byte separator: always at least one field.\<close>

fun Split :: "string \<Rightarrow> char \<Rightarrow> string list" where
  "Split [] sep = [[]]"
| "Split (c # cs) sep =
     (if c = sep then [] # Split cs sep
      else (case Split cs sep of [] \<Rightarrow> [[c]] | x # xs \<Rightarrow> (c # x) # xs))"

text \<open>\<open>strings.HasPrefix\<close> and \<open>strings.HasSuffix\<close>.\<close>

definition HasPrefix :: "string \<Rightarrow> string \<Rightarrow> bool" where
  "HasPrefix s p = (take (length p) s = p)"

definition HasSuffix :: "string \<Rightarrow> string \<Rightarrow> bool" where
  "HasSuffix s suffix =
     (length suffix \<le> length s \<and> drop (length s - length suffix) s = suffix)"

text \<open>\<open>strings.Index(s, sub) >= 0\<close>: \<open>sub\<close> occurs in \<open>s\<close>.\<close>

fun Contains :: "string \<Rightarrow> string \<Rightarrow> bool" where
  "Contains [] sub = (sub = [])"
| "Contains (c # cs) sub = (HasPrefix (c # cs) sub \<or> Contains cs sub)"

text \<open>
  \<open>strings.TrimSpace\<close> removes leading and trailing white space as Unicode defines it.
  On the UTF-8 bytes of a Go string these are the six ASCII characters and the
  encodings of U+0085, U+00A0, U+1680, U+2000 to U+200A, U+2028, U+2029, U+202F,
  U+205F and U+3000.
\<close>

definition space_runes :: "string list" where
  "space_runes =
     [[CHR 0x09], [CHR 0x0A], [CHR 0x0B], [CHR 0x0C], [CHR 0x0D], [CHR 0x20],
      [CHR 0xC2, CHR 0x85], [CHR 0xC2, CHR 0xA0],
      [CHR 0xE1, CHR 0x9A, CHR 0x80],
      [CHR 0xE2, CHR 0x80, CHR 0x80], [CHR 0xE2, CHR 0x80, CHR 0x81],
      [CHR 0xE2, CHR 0x80, CHR 0x82], [CHR 0xE2, CHR 0x80, CHR 0x83],
      [CHR 0xE2, CHR 0x80, CHR 0x84], [CHR 0xE2, CHR 0x80, CHR 0x85],
      [CHR 0xE2, CHR 0x80, CHR 0x86], [CHR 0xE2, CHR 0x80, CHR 0x87],
      [CHR 0xE2, CHR 0x80, CHR 0x88], [CHR 0xE2, CHR 0x80, CHR 0x89],
      [CHR 0xE2, CHR 0x80, CHR 0x8A],
      [CHR 0xE2, CHR 0x80, CHR 0xA8], [CHR 0xE2, CHR 0x80, CHR 0xA9],
      [CHR 0xE2, CHR 0x80, CHR 0xAF],
      [CHR 0xE2, CHR 0x81, CHR 0x9F],
      [CHR 0xE3, CHR 0x80, CHR 0x80]]"

text \<open>The number of bytes of the white-space rune that \<open>s\<close> starts with (0: none).\<close>

definition leading_space :: "string list \<Rightarrow> string \<Rightarrow> nat" where
  "leading_space runes s =
     (case filter (HasPrefix s) runes of [] \<Rightarrow> 0 | r # _ \<Rightarrow> length r)"

function TrimLeft :: "string list \<Rightarrow> string \<Rightarrow> string" where
  "TrimLeft runes s =
     (if leading_space runes s = 0 \<or> length s < leading_space runes s then s
      else TrimLeft runes (drop (leading_space runes s) s))"
  by pat_completeness auto
termination
  by (relation "measure (\<lambda>(runes, s). length s)") auto

definition TrimSpace :: "string \<Rightarrow> string" where
  "TrimSpace s =
     rev (TrimLeft (map rev space_runes) (rev (TrimLeft space_runes s)))"

text \<open>
  \<open>strings.Replace(s, old, new, -1)\<close> for a non-empty \<open>old\<close>: every non-overlapping
  occurrence, left to right.
\<close>

function Replace :: "string \<Rightarrow> string \<Rightarrow> string \<Rightarrow> string" where
  "Replace s old new =
     (if s = [] \<or> old = [] then s
      else if HasPrefix s old then new @ Replace (drop (length old) s) old new
      else hd s # Replace (tl s) old new)"
  by pat_completeness auto
termination
  by (relation "measure (\<lambda>(s, old, new). length s)") auto

subsection \<open>strconv and fmt\<close>

datatype NumError = ErrSyntax | ErrRange

definition is_digit :: "char \<Rightarrow> bool" where
  "is_digit c = ((48::int) \<le> of_char c \<and> of_char c \<le> (57::int))"

definition digit_val :: "char \<Rightarrow> int" where
  "digit_val c = of_char c - 48"

text \<open>
  The loop of \<open>strconv.ParseUint(s, 10, 64)\<close>: a byte that is no digit is a syntax
  error with value 0; a value beyond \<open>2^64 - 1\<close> is a range error with that maximum,
  returned at once (the rest of the string is not looked at). The unsigned 64-bit
  accumulator is an \<open>int\<close> that the two range checks keep below \<open>2^64\<close>.
\<close>

definition maxUint64 :: int where
  "maxUint64 = 18446744073709551615"

fun ParseUint_loop :: "string \<Rightarrow> int \<Rightarrow> int \<times> NumError option" where
  "ParseUint_loop [] n = (n, None)"
| "ParseUint_loop (c # cs) n =
     (if \<not> is_digit c then (0, Some ErrSyntax)
      else if n \<ge> maxUint64 div 10 + 1 then (maxUint64, Some ErrRange)
      else if n * 10 + digit_val c > maxUint64 then (maxUint64, Some ErrRange)
      else ParseUint_loop cs (n * 10 + digit_val c))"

definition ParseUint :: "string \<Rightarrow> int \<times> NumError option" where
  "ParseUint s = (if s = [] then (0, Some ErrSyntax) else ParseUint_loop s 0)"

text \<open>\<open>strconv.ParseInt(s, 10, 64)\<close>: the value and the error (\<open>None\<close> is Go's nil).\<close>

definition int64_cutoff :: int where
  "int64_cutoff = 9223372036854775808"

definition ParseInt :: "string \<Rightarrow> int \<times> NumError option" where
  "ParseInt s0 =
     (if s0 = [] then (0, Some ErrSyntax)
      else
        let neg = (hd s0 = CHR ''-'');
            s = (if hd s0 = CHR ''+'' \<or> hd s0 = CHR ''-'' then tl s0 else s0);
            un = fst (ParseUint s);
            err = snd (ParseUint s)
        in if err = Some ErrSyntax then (0, err)
           else if \<not> neg \<and> un \<ge> int64_cutoff then (int64_cutoff - 1, Some ErrRange)
           else if neg \<and> un > int64_cutoff then (- int64_cutoff, Some ErrRange)
           else (if neg then - un else un, None))"

text \<open>\<open>fmt.Sprintf("%d", n)\<close>.\<close>

definition digit_char :: "int \<Rightarrow> char" where
  "digit_char d = char_of (48 + d)"

function utoa :: "int \<Rightarrow> string" where
  "utoa n = (if n < 10 then [digit_char n] else utoa (n div 10) @ [digit_char (n mod 10)])"
  by pat_completeness auto
termination
  by (relation "measure (\<lambda>n. nat n)") auto

definition itoa :: "int \<Rightarrow> string" where
  "itoa i = (if i < 0 then CHR ''-'' # utoa (- i) else utoa i)"

subsection \<open>path/filepath (Unix)\<close>

text \<open>
  \<open>filepath.Clean\<close>: the path is cut at the slashes; empty and \<open>.\<close> elements go; a
  \<open>..\<close> element removes the element before it when there is one that is not \<open>..\<close>,
  is dropped at the root, and is kept otherwise. The stack \<open>acc\<close> holds the kept
  elements, last one first.
\<close>

fun clean_elems :: "bool \<Rightarrow> string list \<Rightarrow> string list \<Rightarrow> string list" where
  "clean_elems rooted [] acc = rev acc"
| "clean_elems rooted (e # es) acc =
     (if e = [] \<or> e = ''.'' then clean_elems rooted es acc
      else if e = ''..'' then
        (case acc of
           [] \<Rightarrow> if rooted then clean_elems rooted es [] else clean_elems rooted es [e]
         | a # as \<Rightarrow> if a = ''..'' then clean_elems rooted es (e # acc)
                     else clean_elems rooted es as)
      else clean_elems rooted es (e # acc))"

fun join_sep :: "string list \<Rightarrow> string" where
  "join_sep [] = []"
| "join_sep [e] = e"
| "join_sep (e # es) = e @ CHR ''/'' # join_sep es"

definition IsAbs :: "string \<Rightarrow> bool" where
  "IsAbs path = HasPrefix path ''/''"

definition Clean :: "string \<Rightarrow> string" where
  "Clean path =
     (let out = (if IsAbs path then ''/'' else []) @
                join_sep (clean_elems (IsAbs path) (Split path CHR ''/'') [])
      in if out = [] then ''.'' else out)"

text \<open>\<open>filepath.Join\<close>: leading empty elements are ignored, the rest is joined and cleaned.\<close>

definition Join :: "string list \<Rightarrow> string" where
  "Join elem =
     (case dropWhile (\<lambda>e. e = []) elem of [] \<Rightarrow> [] | es \<Rightarrow> Clean (join_sep es))"

text \<open>
  \<open>filepath.Abs\<close>, with the result of \<open>os.Getwd\<close> as a parameter (\<open>None\<close>: it failed).
  The source drops the error of \<open>Abs\<close>, so only the returned string is modelled:
  empty when the working directory is unknown.
\<close>

definition Abs :: "string option \<Rightarrow> string \<Rightarrow> string" where
  "Abs getwd path =
     (if IsAbs path then Clean path
      else (case getwd of None \<Rightarrow> [] | Some wd \<Rightarrow> Join [wd, path]))"

text \<open>\<open>filepath.Dir\<close>: all but the last element, cleaned.\<close>

definition Dir :: "string \<Rightarrow> string" where
  "Dir path = Clean (rev (dropWhile (\<lambda>c. c \<noteq> CHR ''/'') (rev path)))"

section \<open>Data model of qdownload.go\<close>

text \<open>The struct \<open>DownloadConfig\<close>.\<close>

record DownloadConfig =
  DestDir :: string
  Bucket :: string
  Prefix :: string
  Suffixes :: string
  CdnDomain :: string
  DownProxy :: string
  LogLevel :: string
  LogFile :: string
  LogRotate :: int
  LogStdout :: bool



text \<open>
  The closure that \<open>QiniuDownload\<close> sends on the channel captures these variables of the
  loop body (and the configuration, which does not change).
\<close>

record task =
  t_fileKey :: string
  t_fileUrl :: string
  t_fileSize :: int
  t_fromBytes :: int
  t_downNewLog :: bool

text \<open>The request that \<open>downloadFile\<close> builds, and what \<open>client.Do\<close> and \<open>io.Copy\<close> make of it.\<close>

record http_request =
  req_url :: string
  req_host :: string
  req_range :: "string option"
  req_proxy :: "string option"

datatype http_result =
    NoResponse
  | Response int string bool
      \<comment> \<open>status code; the bytes \<open>io.Copy\<close> wrote to the local file; whether it returned an error\<close>

datatype down_err =
  MkdirErr | ProxyParseErr | NewRequestErr | RespErr | OpenErr | CpErr | RenameErr | DownloadFailed

text \<open>The calls of the beego logger, one constructor for each call site.\<close>

datatype loglevel = Informational | Warning | Error

datatype logmsg =
    SkipSuffixNotMatch string
  | InvalidListLine string
  | LocalExistsSame string
  | LocalExistsChanged string
  | LocalExistsSizeDiffers string
  | LocalExistsSameSize string string
  | RenameTempError string string
  | TmpExistsChanged string
  | TmpExistsNoRecord string
  | MkdirAllFailed string
  | Downloading string string
  | InvalidDownloadProxy string
  | NewRequestFailed string string
  | DownloadFailedByUrl string string
  | OpenLocalFileFailed string
  | DownloadCopyFailed string
  | RenameFinalError
  | DownloadSuccess string string
  | DownloadFailedStatus string string int

text \<open>Everything the program does to the outside, in the order it does it.\<close>

datatype event =
    Log loglevel logmsg
  | Progress string int int
  | Stat string
  | LevelDbGet string
  | LevelDbPut string string
  | Rename string string
  | Enqueue task
  | MkdirAll string
  | HttpDo http_request
  | OpenAppend string
  | Create string
  | Copy string string

text \<open>
  What the program cannot decide by itself: the working directory, the bucket's domain
  and ingress host found during set-up, the signing function \<open>PrivateUrl\<close> and the line
  counter \<open>GetFileLineCount\<close> (both defined elsewhere in the package), and the outcome
  of the system and network calls that can fail.
\<close>

record env =
  getwd :: "string option"
  domainOfBucket :: string
  ioProxyAddress :: string
  PrivateUrl :: "string \<Rightarrow> string"
  GetFileLineCount :: "string list \<Rightarrow> int"
  rename_fails :: "string \<Rightarrow> string \<Rightarrow> bool"
  mkdirall_fails :: "string \<Rightarrow> bool"
  url_parse_fails :: "string \<Rightarrow> bool"
  new_request_fails :: "string \<Rightarrow> bool"
  open_fails :: "string \<Rightarrow> bool"
  http_do :: "http_request \<Rightarrow> http_result"

text \<open>
  The state: the regular files below the destination directory (path to content), the
  LevelDB store of resume records, the counters of \<open>QiniuDownload\<close>, the tasks sent on
  the channel so far, and the trace of events.
\<close>

record world =
  fs :: "string \<rightharpoonup> string"
  resumeLevelDb :: "string \<rightharpoonup> string"
  totalFileCount :: int
  currentFileCount :: int
  existsFileCount :: int
  updateFileCount :: int
  successFileCount :: int
  failureFileCount :: int
  skipBySuffixes :: int
  downloadTasks :: "task list"
  trace :: "event list"

definition emit :: "event \<Rightarrow> world \<Rightarrow> world" where
  "emit e w = w\<lparr>trace := trace w @ [e]\<rparr>"

text \<open>\<open>os.Rename\<close>: the error flag and the new state.\<close>

definition os_Rename :: "env \<Rightarrow> string \<Rightarrow> string \<Rightarrow> world \<Rightarrow> bool \<times> world" where
  "os_Rename e oldpath newpath w =
     (case fs w oldpath of
        None \<Rightarrow> (True, emit (Rename oldpath newpath) w)
      | Some content \<Rightarrow>
          if rename_fails e oldpath newpath then (True, emit (Rename oldpath newpath) w)
          else (False, (emit (Rename oldpath newpath) w)
                         \<lparr>fs := (fs w)(newpath \<mapsto> content, oldpath := None)\<rparr>))"

section \<open>The transfer: \<open>downloadFile\<close>\<close>

text \<open>
  The branch of \<open>downloadFile\<close> for a 2xx response: open the temporary file (append
  without creating when \<open>fromBytes\<close> is not 0, create or truncate otherwise), copy the
  body, rename. A failed copy returns with the bytes written so far in the file.
\<close>

definition file_content :: "world \<Rightarrow> string \<Rightarrow> string" where
  "file_content w path = (case fs w path of None \<Rightarrow> [] | Some c \<Rightarrow> c)"

definition save_body ::
  "env \<Rightarrow> string \<Rightarrow> string \<Rightarrow> string \<Rightarrow> int \<Rightarrow> string \<Rightarrow> bool \<Rightarrow> world
     \<Rightarrow> down_err option \<times> world" where
  "save_body e fileName localFilePath localFilePathTmp fromBytes body cpErr w =
     (let w1 = emit (if fromBytes \<noteq> 0 then OpenAppend localFilePathTmp
                     else Create localFilePathTmp) w
      in if open_fails e localFilePathTmp \<or> (fromBytes \<noteq> 0 \<and> fs w localFilePathTmp = None)
         then (Some OpenErr, emit (Log Error (OpenLocalFileFailed localFilePathTmp)) w1)
         else
           let opened = (if fromBytes \<noteq> 0 then file_content w localFilePathTmp else []);
               w2 = (emit (Copy localFilePathTmp body) w1)
                      \<lparr>fs := (fs w)(localFilePathTmp \<mapsto> opened @ body)\<rparr>
           in if cpErr then (Some CpErr, emit (Log Error (DownloadCopyFailed fileName)) w2)
              else
                (case os_Rename e localFilePathTmp localFilePath w2 of
                   (True, w3) \<Rightarrow> (Some RenameErr, emit (Log Error RenameFinalError) w3)
                 | (False, w3) \<Rightarrow>
                     (None, emit (Log Informational (DownloadSuccess fileName localFilePath)) w3)))"

text \<open>
  The proxy address, the URL and the request of \<open>downloadFile\<close> (lines 420 to 460): a proxy
  without \<open>http\<close> in it gets the scheme, and so does the URL when a proxy is used; the
  \<open>Range\<close> header is added when \<open>fromBytes\<close> is not 0.
\<close>

definition downloadProxy_of :: "string \<Rightarrow> string" where
  "downloadProxy_of downProxy =
     (if downProxy \<noteq> [] \<and> \<not> Contains downProxy ''http''
      then ''http://'' @ downProxy else downProxy)"

definition remoteUrl_of :: "string \<Rightarrow> string \<Rightarrow> string" where
  "remoteUrl_of downProxy fileUrl =
     (if downProxy \<noteq> [] \<and> \<not> Contains fileUrl ''http://''
      then ''http://'' @ fileUrl else fileUrl)"

definition request_of :: "string \<Rightarrow> string \<Rightarrow> string \<Rightarrow> int \<Rightarrow> http_request" where
  "request_of fileUrl domainsOfBucket downProxy fromBytes =
     \<lparr>req_url = remoteUrl_of downProxy fileUrl, req_host = domainsOfBucket,
      req_range = (if fromBytes \<noteq> 0 then Some (''bytes='' @ itoa fromBytes @ ''-'') else None),
      req_proxy = (if downProxy \<noteq> [] then Some (downloadProxy_of downProxy) else None)\<rparr>"

text \<open>
  \<open>downloadFile\<close>. The parameter \<open>fileSize\<close> is not used by the source either. Go's
  \<open>resp.StatusCode/100 == 2\<close> truncates towards zero and \<open>div\<close> rounds down; both hold
  exactly for the codes 200 to 299.
\<close>

definition downloadFile ::
  "env \<Rightarrow> string \<Rightarrow> string \<Rightarrow> string \<Rightarrow> string \<Rightarrow> string \<Rightarrow> int \<Rightarrow> int \<Rightarrow> world
     \<Rightarrow> down_err option \<times> world" where
  "downloadFile e destDir fileName fileUrl domainsOfBucket downProxy fileSize fromBytes w =
     (let localFilePath = Join [destDir, fileName];
          localFileDir = Dir localFilePath;
          localFilePathTmp = localFilePath @ ''.tmp'';
          w1 = emit (MkdirAll localFileDir) w
      in if mkdirall_fails e localFileDir
         then (Some MkdirErr, emit (Log Error (MkdirAllFailed localFileDir)) w1)
         else
           let w2 = emit (Log Informational (Downloading fileName localFilePath)) w1;
               remoteUrl = remoteUrl_of downProxy fileUrl
           in if downProxy \<noteq> [] \<and> url_parse_fails e (downloadProxy_of downProxy)
              then (Some ProxyParseErr, emit (Log Informational (InvalidDownloadProxy downProxy)) w2)
              else if new_request_fails e remoteUrl
              then (Some NewRequestErr,
                    emit (Log Informational (NewRequestFailed fileName remoteUrl)) w2)
              else
                let req = request_of fileUrl domainsOfBucket downProxy fromBytes;
                    w3 = emit (HttpDo req) w2
                in (case http_do e req of
                      NoResponse \<Rightarrow>
                        (Some RespErr,
                         emit (Log Informational (DownloadFailedByUrl fileName remoteUrl)) w3)
                    | Response status body cpErr \<Rightarrow>
                        if status div 100 = 2
                        then save_body e fileName localFilePath localFilePathTmp fromBytes
                               body cpErr w3
                        else (Some DownloadFailed,
                              emit (Log Informational
                                      (DownloadFailedStatus fileName fileUrl status)) w3)))"

text \<open>The host that the closure passes to \<open>downloadFile\<close> (lines 354 to 358).\<close>

definition host_of :: "DownloadConfig \<Rightarrow> env \<Rightarrow> string" where
  "host_of downConfig e =
     (if CdnDomain downConfig = [] then domainOfBucket e else CdnDomain downConfig)"

text \<open>The closure sent on the channel, run by a worker.\<close>

definition run_task :: "DownloadConfig \<Rightarrow> env \<Rightarrow> task \<Rightarrow> world \<Rightarrow> world" where
  "run_task downConfig e t w =
     (case downloadFile e (DestDir downConfig) (t_fileKey t) (t_fileUrl t)
             (host_of downConfig e) (DownProxy downConfig) (t_fileSize t) (t_fromBytes t) w of
        (Some err, w1) \<Rightarrow> w1\<lparr>failureFileCount := failureFileCount w1 + 1\<rparr>
      | (None, w1) \<Rightarrow>
          if \<not> t_downNewLog t
          then w1\<lparr>successFileCount := successFileCount w1 + 1,
                  updateFileCount := updateFileCount w1 + 1\<rparr>
          else w1\<lparr>successFileCount := successFileCount w1 + 1\<rparr>)"

section \<open>The controller: the loop of \<open>QiniuDownload\<close>\<close>

definition makePrivateDownloadLink :: "env \<Rightarrow> string \<Rightarrow> string \<Rightarrow> string \<Rightarrow> string" where
  "makePrivateDownloadLink e domain ioProxy fileKey =
     Replace (PrivateUrl e (''http://'' @ domain @ ''/'' @ fileKey)) (''http://'' @ domain)
       ioProxy"

text \<open>The modification time of a resume record: the field before the first bar, errors dropped.\<close>

definition oldFileLmd :: "string \<Rightarrow> int" where
  "oldFileLmd oldFileInfo = fst (ParseInt (Split oldFileInfo CHR ''|'' ! 0))"

text \<open>
  The if-tree over the local state (lines 270 to 341). \<open>None\<close> is a \<open>continue\<close>;
  \<open>Some (downNewLog, fromBytes)\<close> are the two flags with which control reaches the
  \<open>Put\<close>. The store is read under \<open>localFilePath\<close>.
\<close>

definition classify ::
  "env \<Rightarrow> string \<Rightarrow> string \<Rightarrow> string \<Rightarrow> string \<Rightarrow> int \<Rightarrow> int \<Rightarrow> world
     \<Rightarrow> (bool \<times> int) option \<times> world" where
  "classify e fileKey localFilePath localAbsFilePath localFilePathTmp fileSize fileMtime w =
     (let w1 = emit (Stat localFilePath) w
      in case fs w localFilePath of
           Some localFile \<Rightarrow>
             (let w2 = emit (LevelDbGet localFilePath) w1
              in case resumeLevelDb w localFilePath of
                   Some oldFileInfo \<Rightarrow>
                     if oldFileLmd oldFileInfo = fileMtime \<and> int (length localFile) = fileSize
                     then (None, (emit (Log Informational (LocalExistsSame localAbsFilePath)) w2)
                                   \<lparr>existsFileCount := existsFileCount w + 1\<rparr>)
                     else (Some (True, 0),
                           emit (Log Informational (LocalExistsChanged localAbsFilePath)) w2)
                 | None \<Rightarrow>
                     if int (length localFile) \<noteq> fileSize
                     then (Some (True, 0),
                           emit (Log Informational (LocalExistsSizeDiffers localAbsFilePath)) w2)
                     else (None, (emit (Log Warning
                                          (LocalExistsSameSize localAbsFilePath fileKey)) w2)
                                   \<lparr>existsFileCount := existsFileCount w + 1\<rparr>))
         | None \<Rightarrow>
             (let w2 = emit (Stat localFilePathTmp) w1
              in case fs w localFilePathTmp of
                   Some localTmpFile \<Rightarrow>
                     (let w3 = emit (LevelDbGet localFilePath) w2
                      in case resumeLevelDb w localFilePath of
                           Some oldFileInfo \<Rightarrow>
                             if oldFileLmd oldFileInfo = fileMtime
                             then if int (length localTmpFile) < fileSize
                                  then (Some (False, int (length localTmpFile)), w3)
                                  else (case os_Rename e localFilePathTmp localFilePath w3 of
                                          (True, w4) \<Rightarrow>
                                            (None, emit (Log Error (RenameTempError
                                                      localFilePathTmp localFilePath)) w4)
                                        | (False, w4) \<Rightarrow> (None, w4))
                             else (Some (True, 0),
                                   emit (Log Informational (TmpExistsChanged localFilePathTmp)) w3)
                         | None \<Rightarrow>
                             (Some (True, 0),
                              emit (Log Informational (TmpExistsNoRecord localFilePathTmp)) w3))
                 | None \<Rightarrow> (Some (True, 0), w2)))"

text \<open>
  Lines 343 to 368: the record is put under \<open>localAbsFilePath\<close>, then the task is sent.
  The result of \<open>Put\<close> is dropped by the source; the store is taken to accept the write.
\<close>

definition dispatch ::
  "string \<Rightarrow> string \<Rightarrow> string \<Rightarrow> int \<Rightarrow> int \<Rightarrow> bool \<Rightarrow> int \<Rightarrow> world \<Rightarrow> world" where
  "dispatch localAbsFilePath fileKey fileUrl fileSize fileMtime downNewLog fromBytes w =
     (let rKey = localAbsFilePath;
          rVal = itoa fileMtime @ ''|'' @ itoa fileSize;
          w1 = (emit (LevelDbPut rKey rVal) w)
                 \<lparr>resumeLevelDb := (resumeLevelDb w)(rKey \<mapsto> rVal)\<rparr>;
          t = \<lparr>t_fileKey = fileKey, t_fileUrl = fileUrl, t_fileSize = fileSize,
               t_fromBytes = fromBytes, t_downNewLog = downNewLog\<rparr>
      in (emit (Enqueue t) w1)\<lparr>downloadTasks := downloadTasks w1 @ [t]\<rparr>)"

text \<open>One iteration of the loop over the lines of the listing (lines 216 to 370).\<close>

definition process_line ::
  "DownloadConfig \<Rightarrow> env \<Rightarrow> string list \<Rightarrow> string \<Rightarrow> world \<Rightarrow> world" where
  "process_line downConfig e filterSuffixes scanned w0 =
     (let w = w0\<lparr>currentFileCount := currentFileCount w0 + 1\<rparr>;
          line = TrimSpace scanned;
          items = Split line (CHR 0x09)
      in if length items \<ge> 4 then
           (let fileKey = items ! 0
            in if filterSuffixes \<noteq> [] \<and> \<not> list_ex (HasSuffix fileKey) filterSuffixes
               then emit (Log Informational (SkipSuffixNotMatch fileKey))
                      (w\<lparr>skipBySuffixes := skipBySuffixes w + 1\<rparr>)
               else if snd (ParseInt (items ! 1)) \<noteq> None
               then emit (Log Error (InvalidListLine line)) w
               else if snd (ParseInt (items ! 3)) \<noteq> None
               then emit (Log Error (InvalidListLine line)) w
               else
                 (let fileSize = fst (ParseInt (items ! 1));
                      fileMtime = fst (ParseInt (items ! 3));
                      fileUrl = (if CdnDomain downConfig = []
                                 then makePrivateDownloadLink e (domainOfBucket e)
                                        (ioProxyAddress e) fileKey
                                 else makePrivateDownloadLink e (domainOfBucket e)
                                        (CdnDomain downConfig) fileKey);
                      w1 = emit (Progress fileKey (currentFileCount w) (totalFileCount w)) w;
                      localFilePath = Join [DestDir downConfig, fileKey];
                      localAbsFilePath = Abs (getwd e) localFilePath;
                      localFilePathTmp = localFilePath @ ''.tmp''
                  in case classify e fileKey localFilePath localAbsFilePath localFilePathTmp
                            fileSize fileMtime w1 of
                       (None, w2) \<Rightarrow> w2
                     | (Some (downNewLog, fromBytes), w2) \<Rightarrow>
                         dispatch localAbsFilePath fileKey fileUrl fileSize fileMtime
                           downNewLog fromBytes w2))
         else w)"

fun process_lines ::
  "DownloadConfig \<Rightarrow> env \<Rightarrow> string list \<Rightarrow> string list \<Rightarrow> world \<Rightarrow> world" where
  "process_lines downConfig e filterSuffixes [] w = w"
| "process_lines downConfig e filterSuffixes (scanned # rest) w =
     process_lines downConfig e filterSuffixes rest
       (process_line downConfig e filterSuffixes scanned w)"

text \<open>Lines 207 to 214: the suffixes that are not blank, untrimmed.\<close>

definition filterSuffixes_of :: "string \<Rightarrow> string list" where
  "filterSuffixes_of suffixes =
     filter (\<lambda>suffix. TrimSpace suffix \<noteq> []) (Split suffixes CHR '','')"

text \<open>
  Lines 177 to 182: the channel and the workers are made by the first call in the
  process (\<open>sync.Once\<close>); \<open>make\<close> panics on a negative capacity, and the loop starts no
  worker for a count below 1.
\<close>

record pool =
  chan_cap :: int
  workers :: int

datatype go_panic = MakechanSizeOutOfRange

definition initDownOnce_Do :: "int \<Rightarrow> pool option \<Rightarrow> go_panic + pool" where
  "initDownOnce_Do threadCount p =
     (case p of
        Some made \<Rightarrow> Inr made
      | None \<Rightarrow>
          if threadCount < 0 then Inl MakechanSizeOutOfRange
          else Inr \<lparr>chan_cap = threadCount, workers = max 0 threadCount\<rparr>)"

definition init_world :: "(string \<rightharpoonup> string) \<Rightarrow> (string \<rightharpoonup> string) \<Rightarrow> int \<Rightarrow> world" where
  "init_world files store lineCount =
     \<lparr>fs = files, resumeLevelDb = store, totalFileCount = lineCount, currentFileCount = 0,
      existsFileCount = 0, updateFileCount = 0, successFileCount = 0, failureFileCount = 0,
      skipBySuffixes = 0, downloadTasks = [], trace = []\<rparr>"

text \<open>
  \<open>QiniuDownload\<close> from the creation of the pool (line 177) to the end of the loop, on
  the lines that the scanner yields. The set-up before it (account, bucket, domains,
  listing) ends the process on failure and is not modelled; the state at the end is the
  one the workers start from.
\<close>

definition QiniuDownload ::
  "int \<Rightarrow> DownloadConfig \<Rightarrow> env \<Rightarrow> string list \<Rightarrow> pool option
     \<Rightarrow> (string \<rightharpoonup> string) \<Rightarrow> (string \<rightharpoonup> string) \<Rightarrow> go_panic + pool \<times> world" where
  "QiniuDownload threadCount downConfig e listing p files store =
     (case initDownOnce_Do threadCount p of
        Inl err \<Rightarrow> Inl err
      | Inr made \<Rightarrow>
          Inr (made,
               process_lines downConfig e (filterSuffixes_of (Suffixes downConfig)) listing
                 (init_world files store (GetFileLineCount e listing))))"

text \<open>The workers, one task after the other in the order of the channel.\<close>

fun run_tasks :: "DownloadConfig \<Rightarrow> env \<Rightarrow> task list \<Rightarrow> world \<Rightarrow> world" where
  "run_tasks downConfig e [] w = w"
| "run_tasks downConfig e (t # ts) w = run_tasks downConfig e ts (run_task downConfig e t w)"

section \<open>Notions used in the statements\<close>

text \<open>The fields of a scanned line, as the loop body computes them.\<close>

definition line_items :: "string \<Rightarrow> string list" where
  "line_items scanned = Split (TrimSpace scanned) (CHR 0x09)"

text \<open>
  The key, size and modification time of a line that reaches the classification: at
  least four fields, the suffix filter passed, both numbers parsed.
\<close>

definition object_record :: "string list \<Rightarrow> string \<Rightarrow> (string \<times> int \<times> int) option" where
  "object_record filterSuffixes scanned =
     (let items = line_items scanned
      in if length items \<ge> 4
            \<and> (filterSuffixes = [] \<or> list_ex (HasSuffix (items ! 0)) filterSuffixes)
            \<and> snd (ParseInt (items ! 1)) = None \<and> snd (ParseInt (items ! 3)) = None
         then Some (items ! 0, fst (ParseInt (items ! 1)), fst (ParseInt (items ! 3)))
         else None)"

text \<open>A line that the loop drops as invalid, and a line that the suffix filter drops.\<close>

definition malformed :: "string \<Rightarrow> bool" where
  "malformed scanned =
     (let items = line_items scanned
      in length items < 4 \<or> snd (ParseInt (items ! 1)) \<noteq> None
           \<or> snd (ParseInt (items ! 3)) \<noteq> None)"

definition suffix_filtered :: "string list \<Rightarrow> string \<Rightarrow> bool" where
  "suffix_filtered filterSuffixes scanned =
     (let items = line_items scanned
      in length items \<ge> 4 \<and> filterSuffixes \<noteq> []
           \<and> \<not> list_ex (HasSuffix (items ! 0)) filterSuffixes)"

text \<open>The local path and the URL that the loop body computes for a key.\<close>

definition localFilePath_of :: "DownloadConfig \<Rightarrow> string \<Rightarrow> string" where
  "localFilePath_of downConfig fileKey = Join [DestDir downConfig, fileKey]"

definition fileUrl_of :: "DownloadConfig \<Rightarrow> env \<Rightarrow> string \<Rightarrow> string" where
  "fileUrl_of downConfig e fileKey =
     (if CdnDomain downConfig = []
      then makePrivateDownloadLink e (domainOfBucket e) (ioProxyAddress e) fileKey
      else makePrivateDownloadLink e (domainOfBucket e) (CdnDomain downConfig) fileKey)"

text \<open>The events that a step added to the trace.\<close>

definition new_events :: "world \<Rightarrow> world \<Rightarrow> event list" where
  "new_events w w' = drop (length (trace w)) (trace w')"

text \<open>
  The number of lines of the listing: what the name of \<open>GetFileLineCount\<close> says that it
  returns for the listing file.
\<close>

definition line_count :: "string list \<Rightarrow> int" where
  "line_count listing = int (length listing)"

text \<open>A path element that \<open>filepath.Clean\<close> keeps as it is.\<close>

definition normal_elem :: "string \<Rightarrow> bool" where
  "normal_elem e = (e \<noteq> [] \<and> e \<noteq> ''.'' \<and> e \<noteq> ''..'')"

section \<open>Concrete inputs\<close>

fun tab_join :: "string list \<Rightarrow> string" where
  "tab_join [] = []"
| "tab_join [f] = f"
| "tab_join (f # rest) = f @ CHR 0x09 # tab_join rest"

definition config :: "string \<Rightarrow> string \<Rightarrow> DownloadConfig" where
  "config destDir suffixes =
     \<lparr>DestDir = destDir, Bucket = ''bucket'', Prefix = [], Suffixes = suffixes,
      CdnDomain = [], DownProxy = [], LogLevel = [], LogFile = [], LogRotate = 0,
      LogStdout = False\<rparr>"

text \<open>
  An environment in which no system call fails and every request is answered with
  the given status, body and copy outcome.
\<close>

definition environment :: "int \<Rightarrow> string \<Rightarrow> bool \<Rightarrow> env" where
  "environment status body cpErr =
     \<lparr>getwd = Some ''/home/u'', domainOfBucket = ''d.example.com'',
      ioProxyAddress = ''http://io.example.com'',
      PrivateUrl = (\<lambda>u. u @ ''?e=1&token=t''),
      GetFileLineCount = (\<lambda>listing. int (length listing)),
      rename_fails = (\<lambda>a b. False), mkdirall_fails = (\<lambda>d. False),
      url_parse_fails = (\<lambda>u. False), new_request_fails = (\<lambda>u. False),
      open_fails = (\<lambda>f. False),
      http_do = (\<lambda>r. Response status body cpErr)\<rparr>"

section \<open>Basic facts\<close>

lemma emit_fields [simp]:
  "fs (emit ev w) = fs w"
  "resumeLevelDb (emit ev w) = resumeLevelDb w"
  "totalFileCount (emit ev w) = totalFileCount w"
  "currentFileCount (emit ev w) = currentFileCount w"
  "existsFileCount (emit ev w) = existsFileCount w"
  "updateFileCount (emit ev w) = updateFileCount w"
  "successFileCount (emit ev w) = successFileCount w"
  "failureFileCount (emit ev w) = failureFileCount w"
  "skipBySuffixes (emit ev w) = skipBySuffixes w"
  "downloadTasks (emit ev w) = downloadTasks w"
  "trace (emit ev w) = trace w @ [ev]"
  by (simp_all add: emit_def)

section \<open>The suffix filter\<close>

text \<open>
  C6. A line with at least four fields whose key ends in none of the configured
  suffixes, the list of non-blank suffixes being non-empty, only advances the position
  in the listing and the counter of skipped keys and logs the skip: the files, the
  store, the tasks and the other counters are as before, and the trace gains no
  \<open>Stat\<close>, no \<open>LevelDbGet\<close>, no \<open>LevelDbPut\<close> and no \<open>Enqueue\<close>.
\<close>

theorem suffix_filter_skips:
  assumes "4 \<le> length (line_items scanned)"
    and "filterSuffixes_of (Suffixes downConfig) \<noteq> []"
    and "\<not> list_ex (HasSuffix (line_items scanned ! 0)) (filterSuffixes_of (Suffixes downConfig))"
  shows "process_line downConfig e (filterSuffixes_of (Suffixes downConfig)) scanned w =
           w\<lparr>currentFileCount := currentFileCount w + 1,
             skipBySuffixes := skipBySuffixes w + 1,
             trace := trace w @ [Log Informational (SkipSuffixNotMatch (line_items scanned ! 0))]\<rparr>"
  using assms by (simp add: process_line_def line_items_def Let_def emit_def)

theorem suffix_filter_skips_witness:
  "4 \<le> length (line_items (tab_join [''a/b.txt'', ''5'', ''etag'', ''1000'']))
   \<and> filterSuffixes_of (Suffixes (config ''/d'' ''.png,.jpg'')) \<noteq> []
   \<and> \<not> list_ex (HasSuffix (line_items (tab_join [''a/b.txt'', ''5'', ''etag'', ''1000'']) ! 0))
         (filterSuffixes_of (Suffixes (config ''/d'' ''.png,.jpg'')))
   \<and> process_line (config ''/d'' ''.png,.jpg'') (environment 200 ''12345'' False)
       (filterSuffixes_of (Suffixes (config ''/d'' ''.png,.jpg'')))
       (tab_join [''a/b.txt'', ''5'', ''etag'', ''1000'']) (init_world Map.empty Map.empty 1)
     = (init_world Map.empty Map.empty 1)
         \<lparr>currentFileCount := 1, skipBySuffixes := 1,
          trace := [Log Informational (SkipSuffixNotMatch ''a/b.txt'')]\<rparr>"
proof -
  have h1: "4 \<le> length (line_items (tab_join [''a/b.txt'', ''5'', ''etag'', ''1000'']))"
    by code_simp
  have h2: "filterSuffixes_of (Suffixes (config ''/d'' ''.png,.jpg'')) \<noteq> []"
    by code_simp
  have h3: "\<not> list_ex (HasSuffix (line_items (tab_join [''a/b.txt'', ''5'', ''etag'', ''1000'']) ! 0))
         (filterSuffixes_of (Suffixes (config ''/d'' ''.png,.jpg'')))"
    by code_simp
  have k: "line_items (tab_join [''a/b.txt'', ''5'', ''etag'', ''1000'']) ! 0 = ''a/b.txt''"
    by code_simp
  have "process_line (config ''/d'' ''.png,.jpg'') (environment 200 ''12345'' False)
       (filterSuffixes_of (Suffixes (config ''/d'' ''.png,.jpg'')))
       (tab_join [''a/b.txt'', ''5'', ''etag'', ''1000'']) (init_world Map.empty Map.empty 1)
     = (init_world Map.empty Map.empty 1)
         \<lparr>currentFileCount := currentFileCount (init_world Map.empty Map.empty 1) + 1,
          skipBySuffixes := skipBySuffixes (init_world Map.empty Map.empty 1) + 1,
          trace := trace (init_world Map.empty Map.empty 1)
                     @ [Log Informational (SkipSuffixNotMatch ''a/b.txt'')]\<rparr>"
    using suffix_filter_skips [OF h1 h2 h3, of "environment 200 ''12345'' False"
        "init_world Map.empty Map.empty 1"]
    by (simp only: k)
  then show ?thesis
    using h1 h2 h3 by (simp add: init_world_def)
qed

section \<open>The transfer\<close>

lemma save_body_error:
  assumes "save_body e fileName final tmp fromBytes body cpErr w = (Some err, w')"
    and "tmp \<noteq> final"
  shows "fs w' final = fs w final"
    and "fs w tmp \<noteq> None \<Longrightarrow> fs w' tmp \<noteq> None"
    and "\<And>p. p \<noteq> tmp \<Longrightarrow> fs w' p = fs w p"
    and "err = CpErr \<Longrightarrow> fs w' tmp = Some ((if fromBytes \<noteq> 0 then file_content w tmp else []) @ body)"
  using assms
  by (auto simp add: save_body_def Let_def os_Rename_def split: option.splits if_splits prod.splits)

lemma save_body_success:
  assumes "save_body e fileName final tmp fromBytes body cpErr w = (None, w')"
    and "tmp \<noteq> final"
  shows "\<not> cpErr"
    and "fs w' = (fs w)(final \<mapsto> (if fromBytes \<noteq> 0 then file_content w tmp else []) @ body, tmp := None)"
    and "trace w' = trace w @ [if fromBytes \<noteq> 0 then OpenAppend tmp else Create tmp,
                               Copy tmp body, Rename tmp final,
                               Log Informational (DownloadSuccess fileName final)]"
  using assms
  by (auto simp add: save_body_def Let_def os_Rename_def split: option.splits if_splits prod.splits)

lemma downloadFile_error:
  assumes "downloadFile e destDir fileName fileUrl host proxy fileSize fromBytes w = (Some err, w')"
  shows "fs w' (Join [destDir, fileName]) = fs w (Join [destDir, fileName])"
    and "fs w (Join [destDir, fileName] @ ''.tmp'') \<noteq> None
         \<Longrightarrow> fs w' (Join [destDir, fileName] @ ''.tmp'') \<noteq> None"
    and "\<And>p. p \<noteq> Join [destDir, fileName] @ ''.tmp'' \<Longrightarrow> fs w' p = fs w p"
proof -
  let ?final = "Join [destDir, fileName]"
  let ?tmp = "?final @ ''.tmp''"
  have ne: "?tmp \<noteq> ?final" by simp
  have "fs w' ?final = fs w ?final \<and> (fs w ?tmp \<noteq> None \<longrightarrow> fs w' ?tmp \<noteq> None)
        \<and> (\<forall>p. p \<noteq> ?tmp \<longrightarrow> fs w' p = fs w p)"
    using assms
    apply (simp add: downloadFile_def Let_def split: if_splits http_result.splits)
          apply (auto dest: save_body_error [OF _ ne])
    done
  then show "fs w' ?final = fs w ?final"
    and "fs w ?tmp \<noteq> None \<Longrightarrow> fs w' ?tmp \<noteq> None"
    and "\<And>p. p \<noteq> ?tmp \<Longrightarrow> fs w' p = fs w p"
    by auto
qed

lemma downloadFile_success:
  assumes "downloadFile e destDir fileName fileUrl host proxy fileSize fromBytes w = (None, w')"
  shows "\<exists>status body.
           http_do e (request_of fileUrl host proxy fromBytes) = Response status body False
         \<and> status div 100 = 2
         \<and> fs w' = (fs w)(Join [destDir, fileName] \<mapsto>
                      (if fromBytes \<noteq> 0 then file_content w (Join [destDir, fileName] @ ''.tmp'')
                       else []) @ body,
                    Join [destDir, fileName] @ ''.tmp'' := None)
         \<and> trace w' = trace w @
              [MkdirAll (Dir (Join [destDir, fileName])),
               Log Informational (Downloading fileName (Join [destDir, fileName])),
               HttpDo (request_of fileUrl host proxy fromBytes),
               if fromBytes \<noteq> 0 then OpenAppend (Join [destDir, fileName] @ ''.tmp'')
               else Create (Join [destDir, fileName] @ ''.tmp''),
               Copy (Join [destDir, fileName] @ ''.tmp'') body,
               Rename (Join [destDir, fileName] @ ''.tmp'') (Join [destDir, fileName]),
               Log Informational (DownloadSuccess fileName (Join [destDir, fileName]))]"
proof -
  let ?final = "Join [destDir, fileName]"
  let ?tmp = "?final @ ''.tmp''"
  have ne: "?tmp \<noteq> ?final" by simp
  let ?req = "request_of fileUrl host proxy fromBytes"
  let ?w3 = "emit (HttpDo ?req)
               (emit (Log Informational (Downloading fileName ?final))
                  (emit (MkdirAll (Dir ?final)) w))"
  from assms obtain status body cpErr where
    r: "http_do e ?req = Response status body cpErr" and st: "status div 100 = 2"
    and sb: "save_body e fileName ?final ?tmp fromBytes body cpErr ?w3 = (None, w')"
    by (auto simp add: downloadFile_def Let_def split: if_splits http_result.splits)
  have c: "file_content ?w3 ?tmp = file_content w ?tmp"
    by (simp add: file_content_def)
  from save_body_success [OF sb ne] r st c show ?thesis
    by simp
qed

lemma downloadFile_copy_error:
  assumes "downloadFile e destDir fileName fileUrl host proxy fileSize fromBytes w = (Some CpErr, w')"
  shows "\<exists>status body.
           http_do e (request_of fileUrl host proxy fromBytes) = Response status body True
         \<and> status div 100 = 2
         \<and> fs w' (Join [destDir, fileName] @ ''.tmp'') =
             Some ((if fromBytes \<noteq> 0 then file_content w (Join [destDir, fileName] @ ''.tmp'')
                    else []) @ body)"
  using assms
  by (auto simp add: downloadFile_def save_body_def Let_def os_Rename_def file_content_def
      split: if_splits http_result.splits option.splits prod.splits)



text \<open>
  C3. Whatever the outcome of \<open>downloadFile\<close>: when it returns an error, the final
  path holds what it held before and a temporary file that existed still exists; after
  a copy error the temporary file holds the bytes copied so far (after the earlier
  content when resuming); the final path changes only when the call returns no error,
  and then the response was a 2xx whose body was copied without error, the last
  steps were the copy and the rename, and the final file is the whole of the temporary
  file. No other path is touched.
\<close>

theorem transfer_atomic:
  "let final = Join [destDir, fileName];
       tmp = final @ ''.tmp'';
       req = request_of fileUrl host proxy fromBytes;
       r = downloadFile e destDir fileName fileUrl host proxy fileSize fromBytes w;
       err = fst r;
       w' = snd r
   in (err \<noteq> None \<longrightarrow>
         fs w' final = fs w final \<and> (fs w tmp \<noteq> None \<longrightarrow> fs w' tmp \<noteq> None))
    \<and> (err = Some CpErr \<longrightarrow>
         (\<exists>status body. http_do e req = Response status body True
            \<and> fs w' tmp = Some ((if fromBytes \<noteq> 0 then file_content w tmp else []) @ body)))
    \<and> (err = None \<longrightarrow>
         (\<exists>status body. http_do e req = Response status body False \<and> status div 100 = 2
            \<and> fs w' final = Some ((if fromBytes \<noteq> 0 then file_content w tmp else []) @ body)
            \<and> fs w' tmp = None
            \<and> new_events w w' =
                 [MkdirAll (Dir final), Log Informational (Downloading fileName final),
                  HttpDo req, if fromBytes \<noteq> 0 then OpenAppend tmp else Create tmp,
                  Copy tmp body, Rename tmp final,
                  Log Informational (DownloadSuccess fileName final)]))
    \<and> (\<forall>p. p \<noteq> final \<longrightarrow> p \<noteq> tmp \<longrightarrow> fs w' p = fs w p)"
proof -
  let ?final = "Join [destDir, fileName]"
  let ?tmp = "?final @ ''.tmp''"
  let ?r = "downloadFile e destDir fileName fileUrl host proxy fileSize fromBytes w"
  have ne: "?tmp \<noteq> ?final" by simp
  show ?thesis
  proof (cases "fst ?r")
    case None
    then have eq: "?r = (None, snd ?r)"
      by (metis prod.collapse)
    from downloadFile_success [OF eq] None ne show ?thesis
      by (auto simp add: Let_def new_events_def)
  next
    case (Some err)
    then have eq: "?r = (Some err, snd ?r)"
      by (metis prod.collapse)
    have cp: "err = CpErr \<Longrightarrow> \<exists>status body.
           http_do e (request_of fileUrl host proxy fromBytes) = Response status body True
         \<and> status div 100 = 2
         \<and> fs (snd ?r) ?tmp = Some ((if fromBytes \<noteq> 0 then file_content w ?tmp else []) @ body)"
      using downloadFile_copy_error [of e destDir fileName fileUrl host proxy fileSize fromBytes w "snd ?r"] eq
      by simp
    from downloadFile_error [OF eq] Some cp show ?thesis
      by (auto simp add: Let_def)
  qed
qed

theorem transfer_atomic_witness:
  "fst (downloadFile (environment 200 ''12'' True) ''/d'' ''a.bin''
          ''http://io.example.com/a.bin'' ''d.example.com'' [] 5 0
          (init_world [''/d/a.bin'' \<mapsto> ''old''] Map.empty 1)) = Some CpErr
   \<and> fs (snd (downloadFile (environment 200 ''12'' True) ''/d'' ''a.bin''
          ''http://io.example.com/a.bin'' ''d.example.com'' [] 5 0
          (init_world [''/d/a.bin'' \<mapsto> ''old''] Map.empty 1))) ''/d/a.bin'' = Some ''old''
   \<and> fs (snd (downloadFile (environment 200 ''12'' True) ''/d'' ''a.bin''
          ''http://io.example.com/a.bin'' ''d.example.com'' [] 5 0
          (init_world [''/d/a.bin'' \<mapsto> ''old''] Map.empty 1))) ''/d/a.bin.tmp'' = Some ''12''"
proof -
  let ?w = "init_world [''/d/a.bin'' \<mapsto> ''old''] Map.empty 1"
  let ?r = "downloadFile (environment 200 ''12'' True) ''/d'' ''a.bin''
          ''http://io.example.com/a.bin'' ''d.example.com'' [] 5 0 ?w"
  have err: "fst ?r = Some CpErr" by code_simp
  have j: "Join [''/d'', ''a.bin''] = ''/d/a.bin''" by code_simp
  have old: "fs ?w ''/d/a.bin'' = Some ''old''" by code_simp
  have resp: "http_do (environment 200 ''12'' True)
                (request_of ''http://io.example.com/a.bin'' ''d.example.com'' [] 0)
              = Response 200 ''12'' True" by code_simp
  from transfer_atomic [of "''/d''" "''a.bin''" "''http://io.example.com/a.bin''"
      "''d.example.com''" "[]" 0 "environment 200 ''12'' True" 5 ?w]
  have "fs (snd ?r) ''/d/a.bin'' = fs ?w ''/d/a.bin''
        \<and> (\<exists>status body. http_do (environment 200 ''12'' True)
                (request_of ''http://io.example.com/a.bin'' ''d.example.com'' [] 0)
              = Response status body True \<and> fs (snd ?r) ''/d/a.bin.tmp'' = Some body)"
    using err unfolding Let_def j by simp
  with resp old err show ?thesis
    by simp
qed









section \<open>Lines that are dropped\<close>

lemma downloadFile_totalFileCount:
  "totalFileCount (snd (downloadFile e destDir fileName fileUrl host proxy fileSize fromBytes w))
     = totalFileCount w"
  by (simp add: downloadFile_def save_body_def os_Rename_def Let_def emit_def
        split: http_result.splits option.splits)

lemma run_task_totalFileCount:
  "totalFileCount (run_task downConfig e t w) = totalFileCount w"
proof -
  obtain err w1 where d: "downloadFile e (DestDir downConfig) (t_fileKey t) (t_fileUrl t)
             (host_of downConfig e) (DownProxy downConfig) (t_fileSize t) (t_fromBytes t) w
           = (err, w1)"
    by (cases "downloadFile e (DestDir downConfig) (t_fileKey t) (t_fileUrl t)
             (host_of downConfig e) (DownProxy downConfig) (t_fileSize t) (t_fromBytes t) w")
  from downloadFile_totalFileCount [of e "DestDir downConfig" "t_fileKey t" "t_fileUrl t"
      "host_of downConfig e" "DownProxy downConfig" "t_fileSize t" "t_fromBytes t" w] d
  have "totalFileCount w1 = totalFileCount w" by simp
  with d show ?thesis
    by (simp add: run_task_def split: option.splits)
qed

lemma run_tasks_totalFileCount:
  "totalFileCount (run_tasks downConfig e ts w) = totalFileCount w"
  by (induction ts arbitrary: w) (simp_all add: run_task_totalFileCount)

lemma classify_totalFileCount:
  "totalFileCount (snd (classify e fileKey localFilePath localAbsFilePath localFilePathTmp
                          fileSize fileMtime w)) = totalFileCount w"
  by (simp add: classify_def os_Rename_def Let_def emit_def split: option.splits)

lemma process_line_totalFileCount:
  "totalFileCount (process_line downConfig e filterSuffixes scanned w) = totalFileCount w"
proof -
  have c: "totalFileCount w2 = totalFileCount w1"
    if "classify e fileKey localFilePath localAbsFilePath localFilePathTmp fileSize fileMtime w1
        = (r, w2)" for fileKey localFilePath localAbsFilePath localFilePathTmp fileSize fileMtime w1 r w2
    using classify_totalFileCount [of e fileKey localFilePath localAbsFilePath localFilePathTmp
        fileSize fileMtime w1] that by simp
  show ?thesis
    by (auto simp add: process_line_def dispatch_def Let_def emit_def dest!: c
          split: prod.splits option.splits)
qed

lemma process_lines_totalFileCount:
  "totalFileCount (process_lines downConfig e filterSuffixes listing w) = totalFileCount w"
  by (induction listing arbitrary: w) (simp_all add: process_line_totalFileCount)


lemma malformed_step:
  assumes "malformed scanned"
  shows "process_line downConfig e filterSuffixes scanned w =
           (if length (line_items scanned) < 4
            then w\<lparr>currentFileCount := currentFileCount w + 1\<rparr>
            else if suffix_filtered filterSuffixes scanned
            then w\<lparr>currentFileCount := currentFileCount w + 1,
                   skipBySuffixes := skipBySuffixes w + 1,
                   trace := trace w @ [Log Informational
                                          (SkipSuffixNotMatch (line_items scanned ! 0))]\<rparr>
            else w\<lparr>currentFileCount := currentFileCount w + 1,
                   trace := trace w @ [Log Error (InvalidListLine (TrimSpace scanned))]\<rparr>)"
  using assms
  by (auto simp add: process_line_def malformed_def suffix_filtered_def line_items_def
        Let_def emit_def)

lemma suffix_filtered_fields: "suffix_filtered filterSuffixes scanned \<Longrightarrow> 4 \<le> length (line_items scanned)"
  by (simp add: suffix_filtered_def Let_def)

text \<open>
  C8, as the code has it. A malformed line, whether or not the suffix filter takes it
  first, is skipped: the files, the store, the tasks and the counters of results are
  as before, only the position in the listing advances (and the counter of skipped keys
  when the suffix filter takes the line), and the only events are logs. A malformed line
  of at least four fields is logged, as an invalid line or, when the suffix filter takes
  it first, as a key skipped by the filter. The total is set before the loop to the value
  of \<open>GetFileLineCount\<close> and no line and no task changes it: when that value is the
  number of lines of the listing, the malformed line is counted in the total that the
  run ends with.
\<close>

theorem malformed_line_skipped:
  assumes m: "malformed scanned"
    and cnt: "GetFileLineCount e (before @ scanned # after)
              = line_count (before @ scanned # after)"
    and run: "QiniuDownload threadCount downConfig e (before @ scanned # after) p files store
              = Inr (made, final)"
  shows "let w' = process_line downConfig e filterSuffixes scanned w;
             new = new_events w w'
         in w' = w\<lparr>currentFileCount := currentFileCount w + 1,
                    skipBySuffixes := skipBySuffixes w
                      + (if suffix_filtered filterSuffixes scanned then 1 else 0),
                    trace := trace w @ new\<rparr>
          \<and> (\<forall>ev \<in> set new. \<exists>level msg. ev = Log level msg)
          \<and> (4 \<le> length (line_items scanned) \<longrightarrow>
                new = [if suffix_filtered filterSuffixes scanned
                       then Log Informational (SkipSuffixNotMatch (line_items scanned ! 0))
                       else Log Error (InvalidListLine (TrimSpace scanned))])
          \<and> totalFileCount final = line_count (before @ after) + 1
          \<and> totalFileCount (run_tasks downConfig e (downloadTasks final) final)
              = line_count (before @ after) + 1"
proof -
  let ?w' = "process_line downConfig e filterSuffixes scanned w"
  have step: "?w' = w\<lparr>currentFileCount := currentFileCount w + 1,
                    skipBySuffixes := skipBySuffixes w
                      + (if suffix_filtered filterSuffixes scanned then 1 else 0),
                    trace := trace w @ new_events w ?w'\<rparr>
          \<and> (\<forall>ev \<in> set (new_events w ?w'). \<exists>level msg. ev = Log level msg)
          \<and> (4 \<le> length (line_items scanned) \<longrightarrow>
                new_events w ?w' = [if suffix_filtered filterSuffixes scanned
                       then Log Informational (SkipSuffixNotMatch (line_items scanned ! 0))
                       else Log Error (InvalidListLine (TrimSpace scanned))])"
    unfolding malformed_step [OF m]
    using suffix_filtered_fields [of filterSuffixes scanned]
    by (auto simp add: new_events_def)
  from run have f: "final = process_lines downConfig e (filterSuffixes_of (Suffixes downConfig))
                       (before @ scanned # after)
                       (init_world files store (GetFileLineCount e (before @ scanned # after)))"
    by (auto simp add: QiniuDownload_def split: sum.splits)
  have tot: "totalFileCount final = line_count (before @ after) + 1"
    unfolding f process_lines_totalFileCount cnt
    by (simp add: init_world_def line_count_def)
  have rep: "totalFileCount (run_tasks downConfig e (downloadTasks final) final)
              = line_count (before @ after) + 1"
    unfolding run_tasks_totalFileCount by (rule tot)
  from step tot rep show ?thesis
    unfolding Let_def by blast
qed

theorem malformed_line_skipped_witness:
  "(let scanned = tab_join [''a.bin'', ''5x'', ''etag'', ''1000''];
        e = environment 200 [] False;
        w = init_world Map.empty Map.empty 2
    in malformed scanned
     \<and> GetFileLineCount e [''abc'', scanned] = line_count [''abc'', scanned]
     \<and> (\<exists>made final. QiniuDownload 4 (config ''/d'' []) e [''abc'', scanned] None
                        Map.empty Map.empty = Inr (made, final)
           \<and> totalFileCount final = 2)
     \<and> process_line (config ''/d'' []) e [] scanned w
        = w\<lparr>currentFileCount := 1, trace := [Log Error (InvalidListLine scanned)]\<rparr>)"
proof -
  let ?l = "tab_join [''a.bin'', ''5x'', ''etag'', ''1000'']"
  let ?e = "environment 200 [] False"
  let ?w = "init_world Map.empty Map.empty 2"
  let ?final = "process_lines (config ''/d'' []) ?e (filterSuffixes_of (Suffixes (config ''/d'' [])))
                  ([''abc''] @ ?l # []) (init_world Map.empty Map.empty
                     (GetFileLineCount ?e ([''abc''] @ ?l # [])))"
  have m: "malformed ?l" by code_simp
  have cnt: "GetFileLineCount ?e ([''abc''] @ ?l # []) = line_count ([''abc''] @ ?l # [])"
    by (simp add: environment_def line_count_def)
  have run: "QiniuDownload 4 (config ''/d'' []) ?e ([''abc''] @ ?l # []) None Map.empty Map.empty
             = Inr (\<lparr>chan_cap = 4, workers = 4\<rparr>, ?final)"
    by (simp add: QiniuDownload_def initDownOnce_Do_def)
  have n: "4 \<le> length (line_items ?l)" by code_simp
  have f: "\<not> suffix_filtered [] ?l" by code_simp
  have t: "TrimSpace ?l = ?l" by code_simp
  note th = malformed_line_skipped [OF m cnt run, where filterSuffixes = "[]" and w = ?w,
      unfolded Let_def]
  have new: "new_events ?w (process_line (config ''/d'' []) ?e [] ?l ?w)
             = [Log Error (InvalidListLine ?l)]"
    using th [THEN conjunct2, THEN conjunct2, THEN conjunct1] n f
    by (simp only: t if_False simp_thms)
  have step: "process_line (config ''/d'' []) ?e [] ?l ?w
        = ?w\<lparr>currentFileCount := 1, trace := [Log Error (InvalidListLine ?l)]\<rparr>"
    using th [THEN conjunct1] f unfolding new
    by (simp add: init_world_def)
  have tot: "totalFileCount ?final = 2"
    using th [THEN conjunct2, THEN conjunct2, THEN conjunct2, THEN conjunct1]
    by (simp add: line_count_def)
  from m cnt run tot step show ?thesis
    unfolding Let_def by auto
qed

text \<open>
  C8 as stated fails: in a listing of two malformed lines no task is sent and the total
  is 2.
\<close>

theorem malformed_lines_counted_in_total:
  "(let listing = [''abc'', tab_join [''a.bin'', ''5x'', ''etag'', ''1000'']]
    in list_all malformed listing
     \<and> (case QiniuDownload 4 (config ''/d'' []) (environment 200 [] False) listing None
               Map.empty Map.empty of
          Inl err \<Rightarrow> False
        | Inr (made, w) \<Rightarrow> totalFileCount w = 2 \<and> downloadTasks w = []))"
  by code_simp

text \<open>
  A line of fewer than four fields is dropped without any log: the test of line 220 has
  no other branch.
\<close>

lemma short_line_not_logged:
  "malformed ''abc''
   \<and> trace (process_line (config ''/d'' []) (environment 200 [] False) [] ''abc''
              (init_world Map.empty Map.empty 1)) = []"
  by code_simp

section \<open>The temporary file that is already complete\<close>

text \<open>
  C9 at a concrete input: no final file, a temporary file of the object's size, a
  record with the object's modification time. The controller renames the temporary
  file and sends no task, but \<open>existsFileCount\<close> stays 0.
\<close>

theorem promoted_temp_not_counted:
  "(let w = process_line (config ''/d'' []) (environment 200 ''12345'' False) []
              (tab_join [''a.bin'', ''5'', ''etag'', ''1000''])
              (init_world [''/d/a.bin.tmp'' \<mapsto> ''12345''] [''/d/a.bin'' \<mapsto> ''1000|5''] 1)
    in existsFileCount w = 0 \<and> downloadTasks w = []
       \<and> fs w ''/d/a.bin'' = Some ''12345'' \<and> fs w ''/d/a.bin.tmp'' = None
       \<and> trace w = [Progress ''a.bin'' 1 1, Stat ''/d/a.bin'', Stat ''/d/a.bin.tmp'',
                     LevelDbGet ''/d/a.bin'', Rename ''/d/a.bin.tmp'' ''/d/a.bin''])"
  by code_simp

section \<open>The key of the resume record\<close>

text \<open>
  C4 at a concrete input: with the relative destination directory \<open>backup\<close> the store
  is read under \<open>backup/a.png\<close> and written under \<open>/home/u/backup/a.png\<close>.
\<close>

theorem read_key_differs_from_write_key:
  "trace (process_line (config ''backup'' []) (environment 200 ''12345'' False) []
            (tab_join [''a.png'', ''100'', ''etag'', ''2000''])
            (init_world [''backup/a.png'' \<mapsto> ''123''] Map.empty 1))
   = [Progress ''a.png'' 1 1, Stat ''backup/a.png'', LevelDbGet ''backup/a.png'',
      Log Informational (LocalExistsSizeDiffers ''/home/u/backup/a.png''),
      LevelDbPut ''/home/u/backup/a.png'' ''2000|100'',
      Enqueue \<lparr>t_fileKey = ''a.png'',
               t_fileUrl = ''http://io.example.com/a.png?e=1&token=t'',
               t_fileSize = 100, t_fromBytes = 0, t_downNewLog = True\<rparr>]"
  by code_simp

text \<open>
  C1 at a concrete input: a first run into the relative directory \<open>backup\<close> downloads
  the object and records its modification time 1000; in the next run the listing gives
  2000 with the same size, and the object is counted as existing and not downloaded.
\<close>

theorem changed_mtime_taken_as_satisfied:
  "(let downConfig = config ''backup'' [];
        e = environment 200 ''12345'' False;
        first = process_lines downConfig e []
                  [tab_join [''a/b.png'', ''5'', ''etag'', ''1000'']]
                  (init_world Map.empty Map.empty 1);
        finished = run_tasks downConfig e (downloadTasks first) first;
        second = process_lines downConfig e []
                   [tab_join [''a/b.png'', ''5'', ''etag'', ''2000'']]
                   (init_world (fs finished) (resumeLevelDb finished) 1)
    in length (downloadTasks first) = 1 \<and> successFileCount finished = 1
       \<and> fs finished ''backup/a/b.png'' = Some ''12345''
       \<and> resumeLevelDb finished ''/home/u/backup/a/b.png'' = Some ''1000|5''
       \<and> downloadTasks second = [] \<and> existsFileCount second = 1)"
  by code_simp

section \<open>Lines that reach the classification\<close>

lemma process_line_object:
  assumes "object_record filterSuffixes scanned = Some (fileKey, fileSize, fileMtime)"
  shows "process_line downConfig e filterSuffixes scanned w =
     (case classify e fileKey (localFilePath_of downConfig fileKey)
             (Abs (getwd e) (localFilePath_of downConfig fileKey))
             (localFilePath_of downConfig fileKey @ ''.tmp'') fileSize fileMtime
             (emit (Progress fileKey (currentFileCount w + 1) (totalFileCount w))
                (w\<lparr>currentFileCount := currentFileCount w + 1\<rparr>)) of
        (None, w2) \<Rightarrow> w2
      | (Some (downNewLog, fromBytes), w2) \<Rightarrow>
          dispatch (Abs (getwd e) (localFilePath_of downConfig fileKey)) fileKey
            (fileUrl_of downConfig e fileKey) fileSize fileMtime downNewLog fromBytes w2)"
  using assms
  by (auto simp add: object_record_def process_line_def line_items_def Let_def
        localFilePath_of_def fileUrl_of_def split: if_splits prod.splits option.splits)

lemma downloadFile_ok:
  assumes "\<not> mkdirall_fails e (Dir (Join [destDir, fileName]))"
    and "proxy \<noteq> [] \<longrightarrow> \<not> url_parse_fails e (downloadProxy_of proxy)"
    and "\<not> new_request_fails e (remoteUrl_of proxy fileUrl)"
    and "\<not> open_fails e (Join [destDir, fileName] @ ''.tmp'')"
    and "\<not> rename_fails e (Join [destDir, fileName] @ ''.tmp'') (Join [destDir, fileName])"
    and "http_do e (request_of fileUrl host proxy fromBytes) = Response status body False"
    and "status div 100 = 2"
    and "fromBytes \<noteq> 0 \<longrightarrow> fs w (Join [destDir, fileName] @ ''.tmp'') \<noteq> None"
  shows "downloadFile e destDir fileName fileUrl host proxy fileSize fromBytes w =
           (None,
            w\<lparr>fs := (fs w)(Join [destDir, fileName] \<mapsto>
                       (if fromBytes \<noteq> 0
                        then file_content w (Join [destDir, fileName] @ ''.tmp'') else []) @ body,
                     Join [destDir, fileName] @ ''.tmp'' := None),
              trace := trace w @
                [MkdirAll (Dir (Join [destDir, fileName])),
                 Log Informational (Downloading fileName (Join [destDir, fileName])),
                 HttpDo (request_of fileUrl host proxy fromBytes),
                 if fromBytes \<noteq> 0 then OpenAppend (Join [destDir, fileName] @ ''.tmp'')
                 else Create (Join [destDir, fileName] @ ''.tmp''),
                 Copy (Join [destDir, fileName] @ ''.tmp'') body,
                 Rename (Join [destDir, fileName] @ ''.tmp'') (Join [destDir, fileName]),
                 Log Informational (DownloadSuccess fileName (Join [destDir, fileName]))]\<rparr>)"
  using assms
  by (auto simp add: downloadFile_def save_body_def os_Rename_def Let_def emit_def
        file_content_def)

lemma classify_resume:
  assumes "fs w localFilePath = None"
    and "fs w localFilePathTmp = Some part"
    and "resumeLevelDb w localFilePath = Some oldFileInfo"
    and "oldFileLmd oldFileInfo = fileMtime"
    and "int (length part) < fileSize"
  shows "classify e fileKey localFilePath localAbsFilePath localFilePathTmp fileSize fileMtime w
         = (Some (False, int (length part)),
            w\<lparr>trace := trace w @ [Stat localFilePath, Stat localFilePathTmp,
                                   LevelDbGet localFilePath]\<rparr>)"
  using assms by (simp add: classify_def Let_def emit_def)

section \<open>Resuming\<close>

text \<open>
  C2, as the code has it. For a line that reaches the classification, with no final
  file, a temporary file \<open>part\<close> shorter than the object and a record, found under the
  key that is read, with the object's modification time: the controller sends exactly
  one task, with offset \<open>length part\<close> and \<open>downNewLog\<close> false. When the worker runs it on
  a state \<open>v\<close> in which the temporary file is still \<open>part\<close>, no system call fails and the
  2xx response carries the remaining bytes, then the request has the header
  \<open>bytes=<offset>-\<close> and the file is opened for appending if the offset is not 0, and
  has no \<open>Range\<close> header and is created or truncated if the offset is 0; the final
  file is \<open>part\<close> followed by the body, of exactly the object's size.
\<close>

theorem resumed_transfer:
  assumes obj: "object_record filterSuffixes scanned = Some (fileKey, fileSize, fileMtime)"
    and nofinal: "fs w (localFilePath_of downConfig fileKey) = None"
    and tmp: "fs w (localFilePath_of downConfig fileKey @ ''.tmp'') = Some part"
    and entry: "resumeLevelDb w (localFilePath_of downConfig fileKey) = Some oldFileInfo"
    and same: "oldFileLmd oldFileInfo = fileMtime"
    and short: "int (length part) < fileSize"
    and later: "fs v (localFilePath_of downConfig fileKey @ ''.tmp'') = Some part"
    and mk: "\<not> mkdirall_fails e (Dir (localFilePath_of downConfig fileKey))"
    and px: "DownProxy downConfig \<noteq> []
             \<longrightarrow> \<not> url_parse_fails e (downloadProxy_of (DownProxy downConfig))"
    and nr: "\<not> new_request_fails e
               (remoteUrl_of (DownProxy downConfig) (fileUrl_of downConfig e fileKey))"
    and op: "\<not> open_fails e (localFilePath_of downConfig fileKey @ ''.tmp'')"
    and rn: "\<not> rename_fails e (localFilePath_of downConfig fileKey @ ''.tmp'')
                (localFilePath_of downConfig fileKey)"
    and resp: "http_do e (request_of (fileUrl_of downConfig e fileKey) (host_of downConfig e)
                 (DownProxy downConfig) (int (length part))) = Response status body False"
    and ok: "status div 100 = 2"
    and rest: "int (length body) = fileSize - int (length part)"
  shows "let final = localFilePath_of downConfig fileKey;
             t = \<lparr>t_fileKey = fileKey, t_fileUrl = fileUrl_of downConfig e fileKey,
                  t_fileSize = fileSize, t_fromBytes = int (length part),
                  t_downNewLog = False\<rparr>;
             req = request_of (fileUrl_of downConfig e fileKey) (host_of downConfig e)
                     (DownProxy downConfig) (int (length part));
             v' = run_task downConfig e t v
         in downloadTasks (process_line downConfig e filterSuffixes scanned w)
              = downloadTasks w @ [t]
          \<and> req_range req = (if part = [] then None
                              else Some (''bytes='' @ itoa (int (length part)) @ ''-''))
          \<and> new_events v v' =
               [MkdirAll (Dir final), Log Informational (Downloading fileKey final), HttpDo req,
                if part = [] then Create (final @ ''.tmp'') else OpenAppend (final @ ''.tmp''),
                Copy (final @ ''.tmp'') body, Rename (final @ ''.tmp'') final,
                Log Informational (DownloadSuccess fileKey final)]
          \<and> fs v' final = Some (part @ body) \<and> int (length (part @ body)) = fileSize
          \<and> fs v' (final @ ''.tmp'') = None
          \<and> successFileCount v' = successFileCount v + 1
          \<and> updateFileCount v' = updateFileCount v + 1"
proof -
  let ?final = "localFilePath_of downConfig fileKey"
  let ?K = "int (length part)"
  let ?w1 = "emit (Progress fileKey (currentFileCount w + 1) (totalFileCount w))
               (w\<lparr>currentFileCount := currentFileCount w + 1\<rparr>)"
  have c: "classify e fileKey ?final (Abs (getwd e) ?final) (?final @ ''.tmp'') fileSize
             fileMtime ?w1
           = (Some (False, ?K),
              ?w1\<lparr>trace := trace ?w1 @ [Stat ?final, Stat (?final @ ''.tmp''),
                                        LevelDbGet ?final]\<rparr>)"
    using nofinal tmp entry same short by (intro classify_resume) simp_all
  have tasks: "downloadTasks (process_line downConfig e filterSuffixes scanned w)
        = downloadTasks w @ [\<lparr>t_fileKey = fileKey, t_fileUrl = fileUrl_of downConfig e fileKey,
                  t_fileSize = fileSize, t_fromBytes = ?K, t_downNewLog = False\<rparr>]"
    by (simp add: process_line_object [OF obj] c dispatch_def Let_def)
  have nonempty: "?K \<noteq> 0 \<longleftrightarrow> part \<noteq> []"
    by simp
  have d: "downloadFile e (DestDir downConfig) fileKey (fileUrl_of downConfig e fileKey)
             (host_of downConfig e) (DownProxy downConfig) fileSize ?K v =
           (None,
            v\<lparr>fs := (fs v)(Join [DestDir downConfig, fileKey] \<mapsto>
                       (if ?K \<noteq> 0
                        then file_content v (Join [DestDir downConfig, fileKey] @ ''.tmp'')
                        else []) @ body,
                     Join [DestDir downConfig, fileKey] @ ''.tmp'' := None),
              trace := trace v @
                [MkdirAll (Dir (Join [DestDir downConfig, fileKey])),
                 Log Informational (Downloading fileKey (Join [DestDir downConfig, fileKey])),
                 HttpDo (request_of (fileUrl_of downConfig e fileKey) (host_of downConfig e)
                           (DownProxy downConfig) ?K),
                 if ?K \<noteq> 0 then OpenAppend (Join [DestDir downConfig, fileKey] @ ''.tmp'')
                 else Create (Join [DestDir downConfig, fileKey] @ ''.tmp''),
                 Copy (Join [DestDir downConfig, fileKey] @ ''.tmp'') body,
                 Rename (Join [DestDir downConfig, fileKey] @ ''.tmp'')
                   (Join [DestDir downConfig, fileKey]),
                 Log Informational
                   (DownloadSuccess fileKey (Join [DestDir downConfig, fileKey]))]\<rparr>)"
    using mk px nr op rn resp ok later
    by (intro downloadFile_ok) (simp_all add: localFilePath_of_def)
  have fc: "file_content v (?final @ ''.tmp'') = part"
    by (simp add: file_content_def later)
  have len: "int (length (part @ body)) = fileSize"
    using rest by simp
  show ?thesis
    unfolding Let_def
    using tasks len fc
    by (auto simp add: run_task_def d new_events_def request_of_def
          localFilePath_of_def [symmetric])
qed

theorem resumed_transfer_witness:
  "(let downConfig = config ''/d'' [];
        e = environment 206 ''345'' False;
        w = init_world [''/d/a.bin.tmp'' \<mapsto> ''12''] [''/d/a.bin'' \<mapsto> ''1000|5''] 1;
        t = \<lparr>t_fileKey = ''a.bin'', t_fileUrl = ''http://io.example.com/a.bin?e=1&token=t'',
             t_fileSize = 5, t_fromBytes = 2, t_downNewLog = False\<rparr>;
        v' = run_task downConfig e t w
    in downloadTasks (process_line downConfig e [] (tab_join [''a.bin'', ''5'', ''etag'', ''1000'']) w)
         = [t]
     \<and> new_events w v' =
          [MkdirAll ''/d'', Log Informational (Downloading ''a.bin'' ''/d/a.bin''),
           HttpDo \<lparr>req_url = ''http://io.example.com/a.bin?e=1&token=t'',
                   req_host = ''d.example.com'', req_range = Some ''bytes=2-'',
                   req_proxy = None\<rparr>,
           OpenAppend ''/d/a.bin.tmp'', Copy ''/d/a.bin.tmp'' ''345'',
           Rename ''/d/a.bin.tmp'' ''/d/a.bin'',
           Log Informational (DownloadSuccess ''a.bin'' ''/d/a.bin'')]
     \<and> fs v' ''/d/a.bin'' = Some ''12345'' \<and> fs v' ''/d/a.bin.tmp'' = None
     \<and> updateFileCount v' = 1)"
proof -
  let ?c = "config ''/d'' []"
  let ?e = "environment 206 ''345'' False"
  let ?w = "init_world [''/d/a.bin.tmp'' \<mapsto> ''12''] [''/d/a.bin'' \<mapsto> ''1000|5''] 1"
  let ?l = "tab_join [''a.bin'', ''5'', ''etag'', ''1000'']"
  have obj: "object_record [] ?l = Some (''a.bin'', 5, 1000)" by code_simp
  have nofinal: "fs ?w (localFilePath_of ?c ''a.bin'') = None" by code_simp
  have tmp: "fs ?w (localFilePath_of ?c ''a.bin'' @ ''.tmp'') = Some ''12''" by code_simp
  have entry: "resumeLevelDb ?w (localFilePath_of ?c ''a.bin'') = Some ''1000|5''" by code_simp
  have same: "oldFileLmd ''1000|5'' = 1000" by code_simp
  have short: "int (length ''12'') < 5" by simp
  have mk: "\<not> mkdirall_fails ?e (Dir (localFilePath_of ?c ''a.bin''))" by code_simp
  have px: "DownProxy ?c \<noteq> [] \<longrightarrow> \<not> url_parse_fails ?e (downloadProxy_of (DownProxy ?c))"
    by code_simp
  have nr: "\<not> new_request_fails ?e (remoteUrl_of (DownProxy ?c) (fileUrl_of ?c ?e ''a.bin''))"
    by code_simp
  have op: "\<not> open_fails ?e (localFilePath_of ?c ''a.bin'' @ ''.tmp'')" by code_simp
  have rn: "\<not> rename_fails ?e (localFilePath_of ?c ''a.bin'' @ ''.tmp'')
               (localFilePath_of ?c ''a.bin'')" by code_simp
  have resp: "http_do ?e (request_of (fileUrl_of ?c ?e ''a.bin'') (host_of ?c ?e)
                 (DownProxy ?c) (int (length ''12''))) = Response 206 ''345'' False"
    by code_simp
  have ok: "(206::int) div 100 = 2" by simp
  have rest: "int (length ''345'') = 5 - int (length ''12'')" by simp
  have p: "localFilePath_of ?c ''a.bin'' = ''/d/a.bin''" by code_simp
  have u: "fileUrl_of ?c ?e ''a.bin'' = ''http://io.example.com/a.bin?e=1&token=t''"
    by code_simp
  have d: "Dir ''/d/a.bin'' = ''/d''" by code_simp
  have i: "itoa 2 = ''2''" by code_simp
  have h: "host_of ?c ?e = ''d.example.com''" by code_simp
  have q: "request_of ''http://io.example.com/a.bin?e=1&token=t'' ''d.example.com''
             (DownProxy ?c) 2
           = \<lparr>req_url = ''http://io.example.com/a.bin?e=1&token=t'',
                   req_host = ''d.example.com'', req_range = Some ''bytes=2-'',
                   req_proxy = None\<rparr>" by code_simp
  have z: "downloadTasks ?w = []" "updateFileCount ?w = 0"
    by (simp_all add: init_world_def)
  from resumed_transfer [OF obj nofinal tmp entry same short tmp mk px nr op rn resp ok rest]
  show ?thesis
    unfolding Let_def p u d h i by (simp add: q z i)
qed

text \<open>
  C2 as stated fails for an empty temporary file: the offset is 0, the request goes out
  without a \<open>Range\<close> header and the file is created anew, not appended to.
\<close>

theorem empty_temp_resumed_without_range:
  "(let downConfig = config ''/d'' [];
        e = environment 200 ''12345'' False;
        w = init_world [''/d/a.bin.tmp'' \<mapsto> []] [''/d/a.bin'' \<mapsto> ''1000|5''] 1;
        w' = process_line downConfig e [] (tab_join [''a.bin'', ''5'', ''etag'', ''1000'']) w;
        v' = run_tasks downConfig e (downloadTasks w') w'
    in fs w ''/d/a.bin'' = None \<and> fs w ''/d/a.bin.tmp'' = Some []
     \<and> map t_fromBytes (downloadTasks w') = [0]
     \<and> map t_downNewLog (downloadTasks w') = [False]
     \<and> new_events w' v' =
          [MkdirAll ''/d'', Log Informational (Downloading ''a.bin'' ''/d/a.bin''),
           HttpDo \<lparr>req_url = ''http://io.example.com/a.bin?e=1&token=t'',
                   req_host = ''d.example.com'', req_range = None, req_proxy = None\<rparr>,
           Create ''/d/a.bin.tmp'', Copy ''/d/a.bin.tmp'' ''12345'',
           Rename ''/d/a.bin.tmp'' ''/d/a.bin'',
           Log Informational (DownloadSuccess ''a.bin'' ''/d/a.bin'')])"
  by code_simp

section \<open>The worker pool\<close>




section \<open>Facts about the library functions\<close>

lemma Split_nonempty [simp]: "Split s c \<noteq> []"
  by (induction s) (auto split: list.splits)

lemma Split_no_sep: "e \<in> set (Split s c) \<Longrightarrow> c \<notin> set e"
  by (induction s arbitrary: e) (auto split: list.splits if_splits)

lemma Split_append_sep: "c \<notin> set e \<Longrightarrow> Split (e @ c # rest) c = e # Split rest c"
  by (induction e) auto

lemma Split_no_sep_id: "c \<notin> set e \<Longrightarrow> Split e c = [e]"
  by (induction e) auto

lemma Split_join_sep:
  "es \<noteq> [] \<Longrightarrow> \<forall>e \<in> set es. CHR ''/'' \<notin> set e \<Longrightarrow> Split (join_sep es) CHR ''/'' = es"
proof (induction es rule: join_sep.induct)
  case 1
  then show ?case by simp
next
  case (2 e)
  then show ?case by (simp add: Split_no_sep_id)
next
  case (3 e v va)
  then show ?case by (simp add: Split_append_sep)
qed

lemma clean_elems_rooted_set:
  "set (clean_elems True es acc) \<subseteq> set acc \<union> {e \<in> set es. normal_elem e}"
proof (induction es arbitrary: acc)
  case Nil
  then show ?case by simp
next
  case (Cons e es)
  show ?case
  proof (cases "e = [] \<or> e = ''.''")
    case True
    then show ?thesis using Cons.IH [of acc] by auto
  next
    case False
    show ?thesis
    proof (cases "e = ''..''")
      case True
      then show ?thesis
        using False Cons.IH [of "[]"] Cons.IH [of "tl acc"] Cons.IH [of "e # acc"]
        by (cases acc) (auto simp add: normal_elem_def)
    next
      case ne: False
      then show ?thesis
        using False Cons.IH [of "e # acc"] by (auto simp add: normal_elem_def)
    qed
  qed
qed

lemma clean_elems_normal:
  "\<forall>e \<in> set es. normal_elem e \<Longrightarrow> clean_elems r es acc = rev acc @ es"
  by (induction es arbitrary: acc) (auto simp add: normal_elem_def)

lemma IsAbs_iff: "IsAbs p \<longleftrightarrow> (\<exists>rest. p = CHR ''/'' # rest)"
  by (cases p) (auto simp add: IsAbs_def HasPrefix_def)

lemma Clean_rooted:
  "IsAbs x \<Longrightarrow> Clean x = CHR ''/'' # join_sep (clean_elems True (Split x CHR ''/'') [])"
  by (simp add: Clean_def Let_def)

lemma join_sep_no_leading_sep:
  "es \<noteq> [] \<Longrightarrow> \<forall>e \<in> set es. e \<noteq> [] \<and> CHR ''/'' \<notin> set e \<Longrightarrow> \<not> IsAbs (join_sep es)"
  by (induction es rule: join_sep.induct) (auto simp add: IsAbs_iff neq_Nil_conv)

lemma clean_elems_set:
  "set (clean_elems r es acc) \<subseteq> set acc \<union> {e \<in> set es. e \<noteq> []}"
proof (induction es arbitrary: acc)
  case Nil
  then show ?case by simp
next
  case (Cons e es)
  show ?case
  proof (cases "e = [] \<or> e = ''.''")
    case True
    then show ?thesis using Cons.IH [of acc] by auto
  next
    case False
    show ?thesis
    proof (cases "e = ''..''")
      case True
      then show ?thesis
        using False Cons.IH [of "[]"] Cons.IH [of "tl acc"] Cons.IH [of "e # acc"]
          Cons.IH [of "[e]"]
        by (cases acc) auto
    next
      case ne: False
      then show ?thesis
        using False Cons.IH [of "e # acc"] by auto
    qed
  qed
qed

lemma Clean_abs_iff: "IsAbs (Clean x) \<longleftrightarrow> IsAbs x"
proof (cases "IsAbs x")
  case True
  then show ?thesis by (simp add: Clean_rooted IsAbs_iff)
next
  case False
  let ?es = "clean_elems False (Split x CHR ''/'') []"
  have el: "\<forall>e \<in> set ?es. e \<noteq> [] \<and> CHR ''/'' \<notin> set e"
    using clean_elems_set [of False "Split x CHR ''/''" "[]"] Split_no_sep by fastforce
  have "\<not> IsAbs (Clean x)"
  proof (cases "?es = []")
    case True
    with False show ?thesis by (simp add: Clean_def Let_def IsAbs_iff)
  next
    case ne: False
    from join_sep_no_leading_sep [OF ne el] have n: "\<not> IsAbs (join_sep ?es)" .
    then have "join_sep ?es \<noteq> []"
      using ne el by (cases ?es rule: join_sep.cases) auto
    with False n show ?thesis by (simp add: Clean_def Let_def)
  qed
  with False show ?thesis by simp
qed

lemma Clean_idem_rooted:
  assumes "IsAbs x"
  shows "Clean (Clean x) = Clean x"
proof -
  let ?es = "clean_elems True (Split x CHR ''/'') []"
  have n: "\<forall>e \<in> set ?es. normal_elem e"
    using clean_elems_rooted_set [of "Split x CHR ''/''" "[]"] by auto
  have s: "\<forall>e \<in> set ?es. CHR ''/'' \<notin> set e"
    using clean_elems_rooted_set [of "Split x CHR ''/''" "[]"] Split_no_sep by fastforce
  have c: "Clean x = CHR ''/'' # join_sep ?es"
    using assms by (rule Clean_rooted)
  have a: "IsAbs (Clean x)"
    using assms by (simp add: Clean_abs_iff)
  have "clean_elems True (Split (CHR ''/'' # join_sep ?es) CHR ''/'') [] = ?es"
  proof (cases "?es = []")
    case True
    then show ?thesis by simp
  next
    case False
    from Split_join_sep [OF False s] have "Split (join_sep ?es) CHR ''/'' = ?es" .
    then show ?thesis
      using clean_elems_normal [OF n, of True "[]"] by simp
  qed
  then show ?thesis
    using Clean_rooted [OF a] by (simp add: c)
qed

lemma Join_abs_clean:
  assumes "IsAbs (Join es)"
  shows "Clean (Join es) = Join es"
proof (cases "dropWhile (\<lambda>e. e = []) es")
  case Nil
  with assms show ?thesis by (simp add: Join_def IsAbs_iff)
next
  case (Cons a rest)
  then have j: "Join es = Clean (join_sep (a # rest))"
    by (simp add: Join_def)
  with assms have "IsAbs (join_sep (a # rest))"
    by (simp add: Clean_abs_iff)
  then show ?thesis
    by (simp add: j Clean_idem_rooted)
qed

lemma Abs_of_abs_Join: "IsAbs (Join es) \<Longrightarrow> Abs g (Join es) = Join es"
  by (simp add: Abs_def Join_abs_clean)

lemma IsAbs_Abs:
  assumes "g = Some wd" and "IsAbs wd"
  shows "IsAbs (Abs g p)"
proof (cases "IsAbs p")
  case True
  then show ?thesis by (simp add: Abs_def Clean_abs_iff)
next
  case False
  from assms(2) obtain rest where "wd = CHR ''/'' # rest"
    by (auto simp add: IsAbs_iff)
  then have "Join [wd, p] = Clean (wd @ CHR ''/'' # p)"
    by (simp add: Join_def)
  moreover have "IsAbs (wd @ CHR ''/'' # p)"
    using assms(2) by (auto simp add: IsAbs_iff)
  ultimately show ?thesis
    using False assms(1) by (simp add: Abs_def Clean_abs_iff)
qed

end
